theory Spec2Isabelle
  imports Complex_Main "HOL-Library.Multiset" "HOL-Library.Char_ord" "HOL-Library.List_Lexorder"
begin

section \<open>Data model (lib/database/schema.ts)\<close>

text \<open>
  \<^verbatim>\<open>Omit<Profile, 'id'>\<close> is the record \<open>ProfileData\<close>; a \<^verbatim>\<open>Profile\<close> extends it with the
  primary key. A JavaScript \<^verbatim>\<open>number\<close> that holds a count, a size or an id is an \<open>int\<close>;
  \<^verbatim>\<open>string | null\<close> is a \<open>string option\<close> with \<open>None\<close> for \<^verbatim>\<open>null\<close>.
\<close>

record ProfileData =
  name :: string
  channelName :: string
  channelLink :: string
  dailyPushCount :: int
  lastPushReset :: "string option"

record Profile = ProfileData +
  id_p :: int

record VideoData =
  profileId :: int
  title :: string
  description :: string
  filePath :: "string option"
  fileName :: "string option"
  fileSize :: "int option"
  originalFilePath :: "string option"
  originalFileSize :: "int option"
  thumbnailPath :: "string option"
  duration :: "string option"
  scheduleDate :: string
  status :: string
  uploadedDate :: "string option"
  youtubeLink :: "string option"
  isFileUploaded :: bool
  isPlaceholder :: bool

record Video = VideoData +
  id_v :: int

text \<open>
  \<^verbatim>\<open>Partial<Profile>\<close> and \<^verbatim>\<open>Partial<Video>\<close>: every key is optional. \<open>None\<close> is a key that is
  absent (or \<^verbatim>\<open>undefined\<close>); for a nullable column \<open>Some None\<close> is an explicit \<^verbatim>\<open>null\<close>.
\<close>

record PartialProfile =
  id_pu :: "int option"
  name_u :: "string option"
  channelName_u :: "string option"
  channelLink_u :: "string option"
  dailyPushCount_u :: "int option"
  lastPushReset_u :: "string option option"

record PartialVideo =
  id_vu :: "int option"
  profileId_u :: "int option"
  title_u :: "string option"
  description_u :: "string option"
  filePath_u :: "string option option"
  fileName_u :: "string option option"
  fileSize_u :: "int option option"
  originalFilePath_u :: "string option option"
  originalFileSize_u :: "int option option"
  thumbnailPath_u :: "string option option"
  duration_u :: "string option option"
  scheduleDate_u :: "string option"
  status_u :: "string option"
  uploadedDate_u :: "string option option"
  youtubeLink_u :: "string option option"
  isFileUploaded_u :: "bool option"
  isPlaceholder_u :: "bool option"

definition noProfileFields :: PartialProfile where
  "noProfileFields =
     \<lparr>id_pu = None, name_u = None, channelName_u = None, channelLink_u = None,
      dailyPushCount_u = None, lastPushReset_u = None\<rparr>"

definition noVideoFields :: PartialVideo where
  "noVideoFields =
     \<lparr>id_vu = None, profileId_u = None, title_u = None, description_u = None,
      filePath_u = None, fileName_u = None, fileSize_u = None, originalFilePath_u = None,
      originalFileSize_u = None, thumbnailPath_u = None, duration_u = None,
      scheduleDate_u = None, status_u = None, uploadedDate_u = None, youtubeLink_u = None,
      isFileUploaded_u = None, isPlaceholder_u = None\<rparr>"

text \<open>
  The two tables of \<^verbatim>\<open>CREATE_PROFILES_TABLE\<close> and \<^verbatim>\<open>CREATE_VIDEOS_TABLE\<close>, rows in insertion
  order, with the \<^verbatim>\<open>AUTOINCREMENT\<close> counter of each table (the largest key it ever gave out).
  \<^verbatim>\<open>videos.profileId\<close> is declared \<^verbatim>\<open>REFERENCES profiles (id) ON DELETE CASCADE\<close>; the model takes
  the connection to enforce foreign keys, on insert and update as well as on delete.
\<close>

record Database =
  profiles :: "Profile list"
  videos :: "Video list"
  profileSeq :: int
  videoSeq :: int

datatype Error =
  ConstraintViolation
  | TypeError
  | FileDoesNotExist
  | NoOfflineHandler
  | NetworkError
  | HttpError
  | InvalidJson
  | StoreInitError

section \<open>JavaScript values\<close>

text \<open>Truthiness of a \<^verbatim>\<open>string | null\<close> and of a \<^verbatim>\<open>number | null\<close>, and \<^verbatim>\<open>x || null\<close>, \<^verbatim>\<open>x || d\<close>.\<close>

definition truthy_text :: "string option \<Rightarrow> bool" where
  "truthy_text v = (case v of None \<Rightarrow> False | Some s \<Rightarrow> s \<noteq> [])"

definition truthy_num :: "int option \<Rightarrow> bool" where
  "truthy_num v = (case v of None \<Rightarrow> False | Some n \<Rightarrow> n \<noteq> 0)"

definition text_or_null :: "string option \<Rightarrow> string option" where
  "text_or_null v = (if truthy_text v then v else None)"

definition num_or_null :: "int option \<Rightarrow> int option" where
  "num_or_null v = (if truthy_num v then v else None)"

definition num_or :: "int \<Rightarrow> int \<Rightarrow> int" where
  "num_or n d = (if n \<noteq> 0 then n else d)"

definition string_or :: "string \<Rightarrow> string \<Rightarrow> string" where
  "string_or s d = (if s \<noteq> [] then s else d)"

text \<open>
  What a promise resolves to, and the operands of \<^verbatim>\<open>||\<close>: a pending promise is an object,
  so it is truthy whatever it resolves to. \<open>await\<close> of a value that is no promise is the value.
\<close>

datatype 'a JsVal = Undefined | Null | Obj 'a

datatype 'a Operand = Promise "'a JsVal" | Plain "'a JsVal"

fun truthy :: "'a Operand \<Rightarrow> bool" where
  "truthy (Promise _) = True"
| "truthy (Plain Undefined) = False"
| "truthy (Plain Null) = False"
| "truthy (Plain (Obj _)) = True"

definition js_or :: "'a Operand \<Rightarrow> 'a Operand \<Rightarrow> 'a Operand" where
  "js_or a b = (if truthy a then a else b)"

fun await :: "'a Operand \<Rightarrow> 'a JsVal" where
  "await (Promise v) = v"
| "await (Plain v) = v"

definition toJs :: "'a option \<Rightarrow> 'a JsVal" where
  "toJs r = (case r of None \<Rightarrow> Undefined | Some x \<Rightarrow> Obj x)"

text \<open>
  The sum of two numbers is the exact sum rounded to the nearest double, ties to the even
  significand. A count is an integer and so is the exact sum; \<open>toDouble\<close> rounds an integer
  (below \<open>2^1024\<close> in magnitude) to the double it becomes: itself up to \<open>2^53\<close>, beyond
  that the nearest integer with 53 significant bits.
\<close>

fun bitLength :: "nat \<Rightarrow> nat" where
  "bitLength n = (if n = 0 then 0 else Suc (bitLength (n div 2)))"

declare bitLength.simps [simp del]

definition toDouble :: "int \<Rightarrow> int" where
  "toDouble m =
     (let a = nat \<bar>m\<bar>;
          s = 2 ^ (bitLength a - 53);
          q = a div s;
          r = a mod s;
          q' = (if s < 2 * r \<or> (2 * r = s \<and> odd q) then q + 1 else q)
      in sgn m * int (q' * s))"

text \<open>
  What \<^verbatim>\<open>run\<close> of the connection resolves to: \<^verbatim>\<open>{changes: {changes, lastId}}\<close>, an object whose
  property \<^verbatim>\<open>changes\<close> is an object again. The model keeps the number of rows the statement
  changed; nothing in the service reads inside the inner object.
\<close>

record Changes =
  changes' :: int

record RunResult =
  changes :: "Changes option"

text \<open>
  \<^verbatim>\<open>result.changes > 0\<close> compares that object with a number: the object converts to \<^verbatim>\<open>NaN\<close>,
  and every comparison with \<^verbatim>\<open>NaN\<close> is false.
\<close>

definition object_gt :: "Changes \<Rightarrow> int \<Rightarrow> bool" where
  "object_gt obj n = False"

text \<open>\<^verbatim>\<open>result.lastId\<close>: the result has no property of that name, the read gives \<^verbatim>\<open>undefined\<close>.\<close>

definition result_lastId :: "RunResult \<Rightarrow> int option" where
  "result_lastId result = None"

section \<open>Local store (lib/database/sqlite-service.ts)\<close>

subsection \<open>Profiles\<close>

text \<open>\<^verbatim>\<open>SELECT * FROM profiles ORDER BY name ASC\<close>; text compares bytewise.\<close>

definition getProfiles :: "Database \<Rightarrow> Profile list" where
  "getProfiles db = sort_key name (profiles db)"

definition getProfile :: "Database \<Rightarrow> int \<Rightarrow> Profile option" where
  "getProfile db i = find (\<lambda>p. id_p p = i) (profiles db)"

text \<open>The key an \<^verbatim>\<open>AUTOINCREMENT\<close> column gives the next row.\<close>

definition newRowId :: "int \<Rightarrow> int list \<Rightarrow> int" where
  "newRowId seq ids = foldr max ids seq + 1"

text \<open>
  What \<open>createProfile\<close> and \<open>createVideo\<close> return: the argument with \<^verbatim>\<open>id: result.lastId\<close>
  in front, \<open>None\<close> for an \<^verbatim>\<open>id\<close> that is \<^verbatim>\<open>undefined\<close>.
\<close>

record ReturnedProfile = ProfileData +
  id_rp :: "int option"

record ReturnedVideo = VideoData +
  id_rv :: "int option"

definition createProfile :: "Database \<Rightarrow> ProfileData \<Rightarrow> ReturnedProfile \<times> Database" where
  "createProfile db profile =
     (let rowid = newRowId (profileSeq db) (map id_p (profiles db));
          row = \<lparr>name = name profile,
                 channelName = channelName profile,
                 channelLink = channelLink profile,
                 dailyPushCount = num_or (dailyPushCount profile) 0,
                 lastPushReset = text_or_null (lastPushReset profile),
                 id_p = rowid\<rparr>;
          result = \<lparr>changes = Some \<lparr>changes' = 1\<rparr>\<rparr>
      in (ProfileData.extend profile (ReturnedProfile.fields (result_lastId result)),
          db\<lparr>profiles := profiles db @ [row], profileSeq := rowid\<rparr>))"

text \<open>
  \<open>updateProfile\<close> collects one assignment per key that is not \<^verbatim>\<open>undefined\<close>, in the order of
  the source; the key \<^verbatim>\<open>id\<close> is never looked at.
\<close>

datatype ProfileSet =
  SetName string
  | SetChannelName string
  | SetChannelLink string
  | SetDailyPushCount int
  | SetLastPushReset "string option"

fun applyProfileSet :: "Profile \<Rightarrow> ProfileSet \<Rightarrow> Profile" where
  "applyProfileSet p (SetName s) = p\<lparr>name := s\<rparr>"
| "applyProfileSet p (SetChannelName s) = p\<lparr>channelName := s\<rparr>"
| "applyProfileSet p (SetChannelLink s) = p\<lparr>channelLink := s\<rparr>"
| "applyProfileSet p (SetDailyPushCount n) = p\<lparr>dailyPushCount := n\<rparr>"
| "applyProfileSet p (SetLastPushReset r) = p\<lparr>lastPushReset := r\<rparr>"

definition pushField :: "'a option \<Rightarrow> ('a \<Rightarrow> 'b) \<Rightarrow> 'b list" where
  "pushField v mk = (case v of None \<Rightarrow> [] | Some x \<Rightarrow> [mk x])"

definition profileFields :: "PartialProfile \<Rightarrow> ProfileSet list" where
  "profileFields profile =
     pushField (name_u profile) SetName
     @ pushField (channelName_u profile) SetChannelName
     @ pushField (channelLink_u profile) SetChannelLink
     @ pushField (dailyPushCount_u profile) SetDailyPushCount
     @ pushField (lastPushReset_u profile) SetLastPushReset"

text \<open>\<^verbatim>\<open>UPDATE profiles SET ... WHERE id = ?\<close>\<close>

definition runUpdateProfiles :: "ProfileSet list \<Rightarrow> int \<Rightarrow> Database \<Rightarrow> Database" where
  "runUpdateProfiles fields' i db =
     db\<lparr>profiles := map (\<lambda>p. if id_p p = i then foldl applyProfileSet p fields' else p) (profiles db)\<rparr>"

definition updateProfile :: "Database \<Rightarrow> int \<Rightarrow> PartialProfile \<Rightarrow> Profile option \<times> Database" where
  "updateProfile db i profile =
     (let fields' = profileFields profile
      in if length fields' = 0 then (getProfile db i, db)
         else (let db' = runUpdateProfiles fields' i db in (getProfile db' i, db')))"

text \<open>
  \<^verbatim>\<open>DELETE FROM profiles WHERE id = ?\<close>. The rows of \<open>videos\<close> that reference a deleted profile
  go with it (\<^verbatim>\<open>ON DELETE CASCADE\<close>); the statement counts the profiles it deleted. What
  \<open>deleteProfile\<close> returns is \<^verbatim>\<open>result.changes !== undefined && result.changes > 0\<close>.
\<close>

definition runDeleteProfile :: "Database \<Rightarrow> int \<Rightarrow> RunResult \<times> Database" where
  "runDeleteProfile db i =
     (let n = int (length (filter (\<lambda>p. id_p p = i) (profiles db)));
          db' = (if list_ex (\<lambda>p. id_p p = i) (profiles db)
                 then db\<lparr>profiles := filter (\<lambda>p. id_p p \<noteq> i) (profiles db),
                         videos := filter (\<lambda>v. profileId v \<noteq> i) (videos db)\<rparr>
                 else db)
      in (\<lparr>changes = Some \<lparr>changes' = n\<rparr>\<rparr>, db'))"

definition deleteProfile :: "Database \<Rightarrow> int \<Rightarrow> bool \<times> Database" where
  "deleteProfile db i =
     (case runDeleteProfile db i of
        (result, db') \<Rightarrow>
          ((case changes result of None \<Rightarrow> False | Some obj \<Rightarrow> object_gt obj 0), db'))"

subsection \<open>The push window\<close>

text \<open>
  \<open>has24HoursPassed\<close> takes the \<^verbatim>\<open>Date\<close> as its time value in milliseconds, \<open>None\<close> for an
  invalid date, and the clock it reads. The quotient is exact here although the source
  computes it in floating point: both operands are integers below \<open>2^53\<close>, the rounded
  quotient is monotone in the numerator, and \<open>24\<close> is the quotient of \<open>86400000\<close> exactly.
\<close>

definition has24HoursPassed :: "int option \<Rightarrow> int \<Rightarrow> bool" where
  "has24HoursPassed lastResetDate now =
     (case lastResetDate of
        None \<Rightarrow> True
      | Some t \<Rightarrow>
          (let diffMs = now - t;
               diffHours = (of_int diffMs :: rat) / (1000 * 60 * 60)
           in diffHours \<ge> 24))"

text \<open>
  \<open>newDate\<close> is \<^verbatim>\<open>new Date(string).getTime()\<close> of the platform (\<open>None\<close>: an invalid date),
  \<open>formatTs\<close> is \<^verbatim>\<open>format(date, 'yyyy-MM-dd HH:mm:ss')\<close>; \<open>nowCheck\<close> and \<open>nowReset\<close> are the two
  readings of the clock, in \<open>has24HoursPassed\<close> and in the resetting branch.
\<close>

definition incrementProfilePushCount ::
  "(string \<Rightarrow> int option) \<Rightarrow> (int \<Rightarrow> string) \<Rightarrow> int \<Rightarrow> int \<Rightarrow> Database \<Rightarrow> int
     \<Rightarrow> Profile option \<times> Database" where
  "incrementProfilePushCount newDate formatTs nowCheck nowReset db profileId' =
     (case getProfile db profileId' of
        None \<Rightarrow> (None, db)
      | Some profile \<Rightarrow>
          (let shouldReset =
                 (case lastPushReset profile of
                    None \<Rightarrow> True
                  | Some s \<Rightarrow> if truthy_text (Some s) then has24HoursPassed (newDate s) nowCheck else True)
           in if shouldReset
              then updateProfile db profileId'
                     (noProfileFields\<lparr>dailyPushCount_u := Some 1,
                                      lastPushReset_u := Some (Some (formatTs nowReset))\<rparr>)
              else updateProfile db profileId'
                     (noProfileFields\<lparr>dailyPushCount_u := Some (toDouble (dailyPushCount profile + 1))\<rparr>)))"

definition resetProfilePushCount ::
  "(int \<Rightarrow> string) \<Rightarrow> int \<Rightarrow> Database \<Rightarrow> int \<Rightarrow> Profile option \<times> Database" where
  "resetProfilePushCount formatTs now db profileId' =
     updateProfile db profileId'
       (noProfileFields\<lparr>dailyPushCount_u := Some 0, lastPushReset_u := Some (Some (formatTs now))\<rparr>)"

subsection \<open>Videos\<close>

text \<open>
  \<^verbatim>\<open>SELECT * FROM videos ORDER BY scheduleDate DESC\<close>; rows with the same \<open>scheduleDate\<close>
  come in the order of the table.
\<close>

definition getVideos :: "Database \<Rightarrow> Video list" where
  "getVideos db = rev (sort_key scheduleDate (rev (videos db)))"

definition getVideo :: "Database \<Rightarrow> int \<Rightarrow> Video option" where
  "getVideo db i = find (\<lambda>v. id_v v = i) (videos db)"

text \<open>The insert is refused when \<open>profileId\<close> is the key of no profile.\<close>

definition createVideo :: "Database \<Rightarrow> VideoData \<Rightarrow> Error + ReturnedVideo \<times> Database" where
  "createVideo db video =
     (if profileId video \<notin> set (map id_p (profiles db)) then Inl ConstraintViolation
      else
        (let rowid = newRowId (videoSeq db) (map id_v (videos db));
             row = \<lparr>profileId = profileId video,
                    title = title video,
                    description = description video,
                    filePath = text_or_null (filePath video),
                    fileName = text_or_null (fileName video),
                    fileSize = num_or_null (fileSize video),
                    originalFilePath = text_or_null (originalFilePath video),
                    originalFileSize = num_or_null (originalFileSize video),
                    thumbnailPath = text_or_null (thumbnailPath video),
                    duration = text_or_null (duration video),
                    scheduleDate = scheduleDate video,
                    status = string_or (status video) ''pending'',
                    uploadedDate = text_or_null (uploadedDate video),
                    youtubeLink = text_or_null (youtubeLink video),
                    isFileUploaded = (if isFileUploaded video then True else False),
                    isPlaceholder = (if isPlaceholder video then True else False),
                    id_v = rowid\<rparr>;
             result = \<lparr>changes = Some \<lparr>changes' = 1\<rparr>\<rparr>
         in Inr (VideoData.extend video (ReturnedVideo.fields (result_lastId result)),
                 db\<lparr>videos := videos db @ [row], videoSeq := rowid\<rparr>)))"

datatype VideoSet =
  SetProfileId int
  | SetTitle string
  | SetDescription string
  | SetFilePath "string option"
  | SetFileName "string option"
  | SetFileSize "int option"
  | SetOriginalFilePath "string option"
  | SetOriginalFileSize "int option"
  | SetThumbnailPath "string option"
  | SetDuration "string option"
  | SetScheduleDate string
  | SetStatus string
  | SetUploadedDate "string option"
  | SetYoutubeLink "string option"
  | SetIsFileUploaded bool
  | SetIsPlaceholder bool

fun applyVideoSet :: "Video \<Rightarrow> VideoSet \<Rightarrow> Video" where
  "applyVideoSet v (SetProfileId n) = v\<lparr>profileId := n\<rparr>"
| "applyVideoSet v (SetTitle s) = v\<lparr>title := s\<rparr>"
| "applyVideoSet v (SetDescription s) = v\<lparr>description := s\<rparr>"
| "applyVideoSet v (SetFilePath s) = v\<lparr>filePath := s\<rparr>"
| "applyVideoSet v (SetFileName s) = v\<lparr>fileName := s\<rparr>"
| "applyVideoSet v (SetFileSize n) = v\<lparr>fileSize := n\<rparr>"
| "applyVideoSet v (SetOriginalFilePath s) = v\<lparr>originalFilePath := s\<rparr>"
| "applyVideoSet v (SetOriginalFileSize n) = v\<lparr>originalFileSize := n\<rparr>"
| "applyVideoSet v (SetThumbnailPath s) = v\<lparr>thumbnailPath := s\<rparr>"
| "applyVideoSet v (SetDuration s) = v\<lparr>duration := s\<rparr>"
| "applyVideoSet v (SetScheduleDate s) = v\<lparr>scheduleDate := s\<rparr>"
| "applyVideoSet v (SetStatus s) = v\<lparr>status := s\<rparr>"
| "applyVideoSet v (SetUploadedDate s) = v\<lparr>uploadedDate := s\<rparr>"
| "applyVideoSet v (SetYoutubeLink s) = v\<lparr>youtubeLink := s\<rparr>"
| "applyVideoSet v (SetIsFileUploaded b) = v\<lparr>isFileUploaded := b\<rparr>"
| "applyVideoSet v (SetIsPlaceholder b) = v\<lparr>isPlaceholder := b\<rparr>"

definition videoFields :: "PartialVideo \<Rightarrow> VideoSet list" where
  "videoFields video =
     pushField (profileId_u video) SetProfileId
     @ pushField (title_u video) SetTitle
     @ pushField (description_u video) SetDescription
     @ pushField (filePath_u video) SetFilePath
     @ pushField (fileName_u video) SetFileName
     @ pushField (fileSize_u video) SetFileSize
     @ pushField (originalFilePath_u video) SetOriginalFilePath
     @ pushField (originalFileSize_u video) SetOriginalFileSize
     @ pushField (thumbnailPath_u video) SetThumbnailPath
     @ pushField (duration_u video) SetDuration
     @ pushField (scheduleDate_u video) SetScheduleDate
     @ pushField (status_u video) SetStatus
     @ pushField (uploadedDate_u video) SetUploadedDate
     @ pushField (youtubeLink_u video) SetYoutubeLink
     @ pushField (isFileUploaded_u video) (\<lambda>b. SetIsFileUploaded (if b then True else False))
     @ pushField (isPlaceholder_u video) (\<lambda>b. SetIsPlaceholder (if b then True else False))"

text \<open>
  \<^verbatim>\<open>UPDATE videos SET ... WHERE id = ?\<close>. The statement is refused when it gives a row a
  \<open>profileId\<close> that is the key of no profile; a statement that matches no row changes
  nothing and is not refused.
\<close>

definition runUpdateVideos :: "VideoSet list \<Rightarrow> int \<Rightarrow> Database \<Rightarrow> Error + Database" where
  "runUpdateVideos fields' i db =
     (let rows = map (\<lambda>v. if id_v v = i then foldl applyVideoSet v fields' else v) (videos db);
          keyGiven = list_ex (\<lambda>a. case a of SetProfileId _ \<Rightarrow> True | _ \<Rightarrow> False) fields'
      in if keyGiven
            \<and> list_ex (\<lambda>v. id_v v = i \<and> profileId v \<notin> set (map id_p (profiles db))) rows
         then Inl ConstraintViolation
         else Inr (db\<lparr>videos := rows\<rparr>))"

definition updateVideo ::
  "Database \<Rightarrow> int \<Rightarrow> PartialVideo \<Rightarrow> Error + Video option \<times> Database" where
  "updateVideo db i video =
     (let fields' = videoFields video
      in if length fields' = 0 then Inr (getVideo db i, db)
         else (case runUpdateVideos fields' i db of
                 Inl e \<Rightarrow> Inl e
               | Inr db' \<Rightarrow> Inr (getVideo db' i, db')))"

text \<open>
  \<^verbatim>\<open>DELETE FROM videos WHERE id = ?\<close>; \<open>deleteVideo\<close> returns
  \<^verbatim>\<open>result.changes !== undefined && result.changes > 0\<close>.
\<close>

definition runDeleteVideo :: "Database \<Rightarrow> int \<Rightarrow> RunResult \<times> Database" where
  "runDeleteVideo db i =
     (\<lparr>changes = Some \<lparr>changes' = int (length (filter (\<lambda>v. id_v v = i) (videos db)))\<rparr>\<rparr>,
      db\<lparr>videos := filter (\<lambda>v. id_v v \<noteq> i) (videos db)\<rparr>)"

definition deleteVideo :: "Database \<Rightarrow> int \<Rightarrow> bool \<times> Database" where
  "deleteVideo db i =
     (case runDeleteVideo db i of
        (result, db') \<Rightarrow>
          ((case changes result of None \<Rightarrow> False | Some obj \<Rightarrow> object_gt obj 0), db'))"

subsection \<open>The connection\<close>

text \<open>
  The service object: the private flag \<^verbatim>\<open>_isInitialized\<close> and whether the connection of the
  plugin is open. \<open>connects\<close> and \<open>creates\<close> say whether the platform opens the database and
  runs the two \<^verbatim>\<open>CREATE TABLE\<close> statements, \<open>closes\<close> whether it closes the connection.
\<close>

record SQLiteService =
  isInitialized' :: bool
  connectionOpen :: bool

record Plugin =
  connects :: bool
  creates :: bool
  closes :: bool

text \<open>The public getter \<^verbatim>\<open>get isInitialized()\<close>.\<close>

definition isInitialized :: "SQLiteService \<Rightarrow> bool" where
  "isInitialized s = isInitialized' s"

text \<open>
  The class declares \<^verbatim>\<open>isInitialized\<close> with a getter and no setter. Class bodies are strict
  code, where an assignment to such a property throws a \<^verbatim>\<open>TypeError\<close> and stores nothing.
\<close>

definition assign_isInitialized :: "SQLiteService \<Rightarrow> bool \<Rightarrow> Error + SQLiteService" where
  "assign_isInitialized s b = Inl TypeError"

text \<open>\<open>initialize\<close> returns the error it rethrows, if any, with the state it leaves.\<close>

definition initialize :: "Plugin \<Rightarrow> SQLiteService \<Rightarrow> Error option \<times> SQLiteService" where
  "initialize pf s =
     (if isInitialized' s then (None, s)
      else if \<not> connects pf then (Some StoreInitError, s)
      else (let s1 = s\<lparr>connectionOpen := True\<rparr>
            in if \<not> creates pf then (Some StoreInitError, s1)
               else (None, s1\<lparr>isInitialized' := True\<rparr>)))"

text \<open>\<open>closeConnection\<close> catches and logs whatever its body throws.\<close>

definition closeConnection :: "Plugin \<Rightarrow> SQLiteService \<Rightarrow> SQLiteService" where
  "closeConnection pf s =
     (if \<not> closes pf then s
      else (let s1 = s\<lparr>connectionOpen := False\<rparr>
            in case assign_isInitialized s1 False of
                 Inl e \<Rightarrow> s1
               | Inr s2 \<Rightarrow> s2))"

text \<open>\<open>onAppForeground\<close> of the lifecycle module; it catches and logs a failed \<open>initialize\<close>.\<close>

definition onAppForeground :: "Plugin \<Rightarrow> SQLiteService \<Rightarrow> SQLiteService" where
  "onAppForeground pf s =
     (if \<not> isInitialized s then snd (initialize pf s) else s)"

section \<open>File area (FileSystemService)\<close>

text \<open>
  The file area is the set of paths under the documents directory that name a file. The
  world of the facade is the store, the file area and the paths \<open>deleteFile\<close> was called
  with, oldest first.
\<close>

record World =
  store :: Database
  fileArea :: "string set"
  deleteCalls :: "string list"

text \<open>
  \<^verbatim>\<open>Filesystem.deleteFile\<close> of the Capacitor plugin, which the services take as a parameter:
  the plugin rejects the call for a path that names no file.
\<close>

definition capacitorDeleteFile :: "string \<Rightarrow> string set \<Rightarrow> Error + string set" where
  "capacitorDeleteFile path fs = (if path \<in> fs then Inr (fs - {path}) else Inl FileDoesNotExist)"

text \<open>\<open>deleteFile\<close> logs the error of the plugin and throws it again.\<close>

definition deleteFile ::
  "(string \<Rightarrow> string set \<Rightarrow> Error + string set) \<Rightarrow> World \<Rightarrow> string \<Rightarrow> Error option \<times> World" where
  "deleteFile fsDelete w path =
     (let w1 = w\<lparr>deleteCalls := deleteCalls w @ [path]\<rparr>
      in case fsDelete path (fileArea w1) of
           Inl error \<Rightarrow> (Some error, w1)
         | Inr fs \<Rightarrow> (None, w1\<lparr>fileArea := fs\<rparr>))"

section \<open>Offline service facade (OfflineApiService)\<close>

text \<open>
  Every method of the facade awaits \<open>ensureInitialized\<close> first; the operations below are the
  methods on a service that is initialized.
\<close>

definition offline_getProfile :: "Database \<Rightarrow> int \<Rightarrow> Profile JsVal" where
  "offline_getProfile db i =
     (let profile = await (Promise (toJs (getProfile db i)))
      in await (js_or (Plain profile) (Plain Null)))"

definition offline_getVideo :: "Database \<Rightarrow> int \<Rightarrow> Video JsVal" where
  "offline_getVideo db i = await (js_or (Promise (toJs (getVideo db i))) (Plain Null))"

definition offline_updateVideo ::
  "Database \<Rightarrow> int \<Rightarrow> PartialVideo \<Rightarrow> Error + Video JsVal \<times> Database" where
  "offline_updateVideo db i video =
     (case updateVideo db i video of
        Inl e \<Rightarrow> Inl e
      | Inr (r, db') \<Rightarrow> Inr (await (js_or (Promise (toJs r)) (Plain Null)), db'))"

definition offline_deleteProfile :: "World \<Rightarrow> int \<Rightarrow> bool \<times> World" where
  "offline_deleteProfile w i =
     (case deleteProfile (store w) i of (r, db') \<Rightarrow> (r, w\<lparr>store := db'\<rparr>))"

text \<open>A deletion whose rejection the caller catches and logs.\<close>

definition deleteFileCaught ::
  "(string \<Rightarrow> string set \<Rightarrow> Error + string set) \<Rightarrow> World \<Rightarrow> string option \<Rightarrow> World" where
  "deleteFileCaught fsDelete w path =
     (case path of
        None \<Rightarrow> w
      | Some s \<Rightarrow> if truthy_text (Some s) then snd (deleteFile fsDelete w s) else w)"

definition offline_deleteVideo ::
  "(string \<Rightarrow> string set \<Rightarrow> Error + string set) \<Rightarrow> World \<Rightarrow> int \<Rightarrow> bool \<times> World" where
  "offline_deleteVideo fsDelete w i =
     (let w2 = (case getVideo (store w) i of
                  None \<Rightarrow> w
                | Some video \<Rightarrow>
                    (let w1 = deleteFileCaught fsDelete w (filePath video)
                     in deleteFileCaught fsDelete w1 (thumbnailPath video)))
      in case deleteVideo (store w2) i of (r, db') \<Rightarrow> (r, w2\<lparr>store := db'\<rparr>))"

text \<open>\<open>formatDay\<close> is \<^verbatim>\<open>format(date, 'yyyy-MM-dd')\<close>, \<open>now\<close> the reading of the clock.\<close>

definition markVideoAsUploaded ::
  "(int \<Rightarrow> string) \<Rightarrow> int \<Rightarrow> Database \<Rightarrow> int \<Rightarrow> Error + Video JsVal \<times> Database" where
  "markVideoAsUploaded formatDay now db i =
     (case getVideo db i of
        None \<Rightarrow> Inr (Null, db)
      | Some video \<Rightarrow>
          (case updateVideo db i
                  (noVideoFields\<lparr>status_u := Some ''completed'',
                                 uploadedDate_u := Some (Some (formatDay now))\<rparr>) of
             Inl e \<Rightarrow> Inl e
           | Inr (r, db') \<Rightarrow> Inr (toJs r, db')))"

definition revertVideoUpload :: "Database \<Rightarrow> int \<Rightarrow> Error + Video JsVal \<times> Database" where
  "revertVideoUpload db i =
     (case getVideo db i of
        None \<Rightarrow> Inr (Null, db)
      | Some video \<Rightarrow>
          (case updateVideo db i
                  (noVideoFields\<lparr>status_u := Some ''pending'',
                                 uploadedDate_u := Some None,
                                 youtubeLink_u := Some None\<rparr>) of
             Inl e \<Rightarrow> Inl e
           | Inr (r, db') \<Rightarrow> Inr (toJs r, db')))"

subsection \<open>Export and import\<close>

text \<open>
  A key of the object handed to \<open>importData\<close>: absent (\<^verbatim>\<open>undefined\<close>), a value that cannot be
  iterated (\<^verbatim>\<open>null\<close>, a number, a boolean, a plain object), or an array of records.
\<close>

datatype 'a JsField = Missing | NotIterable | Rows "'a list"

record DataFile =
  profiles_d :: "Profile JsField"
  videos_d :: "Video JsField"

definition exportData :: "Database \<Rightarrow> DataFile" where
  "exportData db = \<lparr>profiles_d = Rows (getProfiles db), videos_d = Rows (getVideos db)\<rparr>"

fun importProfiles :: "Database \<Rightarrow> Profile list \<Rightarrow> Database" where
  "importProfiles db [] = db"
| "importProfiles db (profile # rest) =
     importProfiles (snd (createProfile db (ProfileData.truncate profile))) rest"

fun importVideos :: "Database \<Rightarrow> Video list \<Rightarrow> Error option \<times> Database" where
  "importVideos db [] = (None, db)"
| "importVideos db (video # rest) =
     (case createVideo db (VideoData.truncate video) of
        Inl e \<Rightarrow> (Some e, db)
      | Inr (created, db') \<Rightarrow> importVideos db' rest)"

text \<open>
  The two loops run inside one \<^verbatim>\<open>try\<close>: whatever is thrown (the \<^verbatim>\<open>TypeError\<close> of iterating a
  value that is no iterable, the rejection of an insert) ends the import with \<^verbatim>\<open>false\<close>, and
  the rows inserted until then stay.
\<close>

definition importData :: "Database \<Rightarrow> DataFile \<Rightarrow> bool \<times> Database" where
  "importData db data' =
     (case profiles_d data' of
        Rows ps \<Rightarrow>
          (let db1 = importProfiles db ps
           in case videos_d data' of
                Rows vs \<Rightarrow>
                  (case importVideos db1 vs of
                     (None, db2) \<Rightarrow> (True, db2)
                   | (Some e, db2) \<Rightarrow> (False, db2))
              | Missing \<Rightarrow> (False, db1)
              | NotIterable \<Rightarrow> (False, db1))
      | Missing \<Rightarrow> (False, db)
      | NotIterable \<Rightarrow> (False, db))"

section \<open>Mode switch (lib/api/api-switcher.ts)\<close>

text \<open>
  What the controller reads from the device: the platform \<^verbatim>\<open>Device.getInfo()\<close> reports
  (\<open>None\<close>: the call rejects), the value stored under \<^verbatim>\<open>offline_mode_preference\<close>, whether the
  preference store answers \<^verbatim>\<open>get\<close> and \<^verbatim>\<open>set\<close>, and \<^verbatim>\<open>window.location.origin\<close>.
\<close>

datatype DevicePlatform = Android | Ios | Web

record Env =
  deviceInfo :: "DevicePlatform option"
  preference :: "string option"
  preferencesWork :: bool
  origin :: string

definition CAPACITOR_DEV_URL :: string where
  "CAPACITOR_DEV_URL = ''http://localhost:5000''"

definition isNativeApp :: "Env \<Rightarrow> bool" where
  "isNativeApp env =
     (case deviceInfo env of
        None \<Rightarrow> False
      | Some platform \<Rightarrow> platform = Android \<or> platform = Ios)"

definition isOfflineMode :: "Env \<Rightarrow> bool" where
  "isOfflineMode env =
     (if \<not> preferencesWork env then False
      else if preference env = Some ''forced'' then True
      else if \<not> isNativeApp env then False
      else preference env = Some ''true'')"

definition setOfflineMode :: "Env \<Rightarrow> bool \<Rightarrow> bool \<Rightarrow> Env" where
  "setOfflineMode env enabled forced =
     (if \<not> preferencesWork env then env
      else env\<lparr>preference :=
                 Some (if forced then ''forced'' else if enabled then ''true'' else ''false'')\<rparr>)"

definition getApiBaseUrl :: "Env \<Rightarrow> string" where
  "getApiBaseUrl env =
     (if isOfflineMode env then []
      else if isNativeApp env then CAPACITOR_DEV_URL
      else origin env)"

text \<open>
  The outcome of \<^verbatim>\<open>fetch\<close> for a URL: the call rejects, or a response with its \<^verbatim>\<open>ok\<close> flag and
  the value \<^verbatim>\<open>response.json()\<close> resolves to (\<open>None\<close>: the body is no JSON). The offline handler
  is the outcome of calling it, \<open>None\<close> when the caller passed none.
\<close>

datatype 'a Fetched = FetchRejects | Response bool "'a option"

definition onlineRequest :: "'a Fetched \<Rightarrow> Error + 'a" where
  "onlineRequest r =
     (case r of
        FetchRejects \<Rightarrow> Inl NetworkError
      | Response ok body \<Rightarrow>
          (if \<not> ok then Inl HttpError
           else case body of None \<Rightarrow> Inl InvalidJson | Some x \<Rightarrow> Inr x))"

definition apiRequest ::
  "Env \<Rightarrow> (string \<Rightarrow> 'a Fetched) \<Rightarrow> string \<Rightarrow> (Error + 'a) option \<Rightarrow> (Error + 'a) \<times> Env" where
  "apiRequest env fetch endpoint offlineHandler =
     (if isOfflineMode env
      then (case offlineHandler of
              None \<Rightarrow> (Inl NoOfflineHandler, env)
            | Some handled \<Rightarrow> (handled, env))
      else (let baseUrl = getApiBaseUrl env
            in case onlineRequest (fetch (baseUrl @ endpoint)) of
                 Inr x \<Rightarrow> (Inr x, env)
               | Inl error \<Rightarrow>
                   (case offlineHandler of
                      Some handled \<Rightarrow> (handled, setOfflineMode env True False)
                    | None \<Rightarrow> (Inl error, env))))"

section \<open>Records that an insert stores unchanged\<close>

text \<open>
  \<open>createProfile\<close> and \<open>createVideo\<close> store \<^verbatim>\<open>x || null\<close> for the nullable columns and
  \<^verbatim>\<open>status || 'pending'\<close>: an empty string and a size of 0 are stored as \<^verbatim>\<open>null\<close>, an empty
  status as \<^verbatim>\<open>'pending'\<close>. These are the records that have no such value.
\<close>

definition noFalsyProfile :: "Profile \<Rightarrow> bool" where
  "noFalsyProfile p = (lastPushReset p \<noteq> Some [])"

definition noFalsyVideo :: "Video \<Rightarrow> bool" where
  "noFalsyVideo v =
     (filePath v \<noteq> Some [] \<and> fileName v \<noteq> Some [] \<and> fileSize v \<noteq> Some 0
      \<and> originalFilePath v \<noteq> Some [] \<and> originalFileSize v \<noteq> Some 0
      \<and> thumbnailPath v \<noteq> Some [] \<and> duration v \<noteq> Some [] \<and> status v \<noteq> []
      \<and> uploadedDate v \<noteq> Some [] \<and> youtubeLink v \<noteq> Some [])"

section \<open>An example store\<close>

definition exampleClock :: "(int \<times> string) list" where
  "exampleClock =
     [(1714564800000, ''2024-05-01 12:00:00''),
      (1714651199000, ''2024-05-02 11:59:59''),
      (1714651200000, ''2024-05-02 12:00:00'')]"

definition exampleFormatTs :: "int \<Rightarrow> string" where
  "exampleFormatTs t = (case map_of exampleClock t of None \<Rightarrow> [] | Some s \<Rightarrow> s)"

definition exampleNewDate :: "string \<Rightarrow> int option" where
  "exampleNewDate s = map_of (map (\<lambda>(t, s). (s, t)) exampleClock) s"

definition exampleProfile :: Profile where
  "exampleProfile =
     \<lparr>name = ''Chan'', channelName = ''@chan'', channelLink = ''https://youtube.com/@chan'',
      dailyPushCount = 5, lastPushReset = Some ''2024-05-01 12:00:00'', id_p = 1\<rparr>"

definition exampleVideo :: Video where
  "exampleVideo =
     \<lparr>profileId = 1, title = ''Intro'', description = ''First upload'',
      filePath = Some ''videos/intro.mp4'', fileName = Some ''intro.mp4'', fileSize = Some 1024,
      originalFilePath = None, originalFileSize = None,
      thumbnailPath = Some ''thumbs/intro_thumbnail.jpg'', duration = None,
      scheduleDate = ''2024-05-03 09:00:00'', status = ''pending'', uploadedDate = None,
      youtubeLink = None, isFileUploaded = True, isPlaceholder = False, id_v = 1\<rparr>"

definition exampleDb :: Database where
  "exampleDb = \<lparr>profiles = [exampleProfile], videos = [exampleVideo], profileSeq = 1, videoSeq = 1\<rparr>"

definition exampleWorld :: World where
  "exampleWorld =
     \<lparr>store = exampleDb,
      fileArea = {''videos/intro.mp4'', ''thumbs/intro_thumbnail.jpg''},
      deleteCalls = []\<rparr>"

definition emptyStore :: Database where
  "emptyStore = \<lparr>profiles = [], videos = [], profileSeq = 0, videoSeq = 0\<rparr>"

definition examplePlugin :: Plugin where
  "examplePlugin = \<lparr>connects = True, creates = True, closes = True\<rparr>"

definition openService :: SQLiteService where
  "openService = \<lparr>isInitialized' = True, connectionOpen = True\<rparr>"

definition webEnv :: Env where
  "webEnv = \<lparr>deviceInfo = Some Web, preference = None, preferencesWork = True,
             origin = ''https://planner.example''\<rparr>"

definition androidEnv :: Env where
  "androidEnv = \<lparr>deviceInfo = Some Android, preference = Some ''false'', preferencesWork = True,
                 origin = ''https://planner.example''\<rparr>"

definition staleVideo :: Video where
  "staleVideo = exampleVideo\<lparr>fileSize := Some 0\<rparr>"

definition staleDb :: Database where
  "staleDb = exampleDb\<lparr>videos := [staleVideo]\<rparr>"

definition renumberedDb :: Database where
  "renumberedDb =
     \<lparr>profiles = [exampleProfile\<lparr>id_p := 2\<rparr>], videos = [exampleVideo\<lparr>profileId := 2\<rparr>],
      profileSeq = 2, videoSeq = 1\<rparr>"

section \<open>Properties\<close>

subsection \<open>Lookups after an update\<close>

lemma foldl_applyProfileSet_id: "id_p (foldl applyProfileSet p fs) = id_p p"
proof (induction fs arbitrary: p)
  case Nil
  show ?case by simp
next
  case (Cons a fs)
  show ?case by (cases a) (simp_all add: Cons.IH)
qed

lemma find_map_same_key:
  assumes "\<And>x. key (f x) = key x"
  shows "find (\<lambda>x. key x = j) (map (\<lambda>x. if key x = i then f x else x) xs) =
         (if j = i then map_option f (find (\<lambda>x. key x = i) xs) else find (\<lambda>x. key x = j) xs)"
  using assms by (induction xs) auto

lemma getProfile_runUpdateProfiles:
  "getProfile (runUpdateProfiles fs i db) j =
     (if j = i then map_option (\<lambda>p. foldl applyProfileSet p fs) (getProfile db i)
      else getProfile db j)"
  unfolding getProfile_def runUpdateProfiles_def
  using find_map_same_key[of id_p "\<lambda>p. foldl applyProfileSet p fs" j i "profiles db"]
  by (simp add: foldl_applyProfileSet_id)

lemma foldl_profileFields:
  "foldl applyProfileSet p (profileFields u) =
     p\<lparr>name := (case name_u u of None \<Rightarrow> name p | Some s \<Rightarrow> s),
       channelName := (case channelName_u u of None \<Rightarrow> channelName p | Some s \<Rightarrow> s),
       channelLink := (case channelLink_u u of None \<Rightarrow> channelLink p | Some s \<Rightarrow> s),
       dailyPushCount := (case dailyPushCount_u u of None \<Rightarrow> dailyPushCount p | Some n \<Rightarrow> n),
       lastPushReset := (case lastPushReset_u u of None \<Rightarrow> lastPushReset p | Some r \<Rightarrow> r)\<rparr>"
  by (cases "name_u u"; cases "channelName_u u"; cases "channelLink_u u";
      cases "dailyPushCount_u u"; cases "lastPushReset_u u")
     (simp_all add: profileFields_def pushField_def)

lemma updateProfile_result:
  "updateProfile db i u =
     (map_option (\<lambda>p. foldl applyProfileSet p (profileFields u)) (getProfile db i),
      if profileFields u = [] then db else runUpdateProfiles (profileFields u) i db)"
  by (cases "getProfile db i") (simp_all add: updateProfile_def Let_def getProfile_runUpdateProfiles)

subsection \<open>Partial update of a profile\<close>

text \<open>
  Claim C8. For a profile id that is in the store and any partial object, \<open>updateProfile\<close>
  returns and stores a profile whose every field is the supplied value where the partial
  object supplies one and the previous value where it does not; the key \<open>id\<close> never
  changes, the other profiles and the videos stay as they were, and a partial object that
  supplies none of the five columns leaves the profile and the whole store unchanged.
\<close>

theorem updateProfile_partial:
  assumes "getProfile db i = Some p"
  shows "\<exists>p' db'. updateProfile db i u = (Some p', db')
           \<and> getProfile db' i = Some p'
           \<and> id_p p' = id_p p
           \<and> name p' = (case name_u u of None \<Rightarrow> name p | Some s \<Rightarrow> s)
           \<and> channelName p' = (case channelName_u u of None \<Rightarrow> channelName p | Some s \<Rightarrow> s)
           \<and> channelLink p' = (case channelLink_u u of None \<Rightarrow> channelLink p | Some s \<Rightarrow> s)
           \<and> dailyPushCount p' = (case dailyPushCount_u u of None \<Rightarrow> dailyPushCount p | Some n \<Rightarrow> n)
           \<and> lastPushReset p' = (case lastPushReset_u u of None \<Rightarrow> lastPushReset p | Some r \<Rightarrow> r)
           \<and> (\<forall>j. j \<noteq> i \<longrightarrow> getProfile db' j = getProfile db j)
           \<and> videos db' = videos db
           \<and> (name_u u = None \<and> channelName_u u = None \<and> channelLink_u u = None
                \<and> dailyPushCount_u u = None \<and> lastPushReset_u u = None
               \<longrightarrow> p' = p \<and> db' = db)"
proof -
  let ?p' = "foldl applyProfileSet p (profileFields u)"
  let ?db' = "if profileFields u = [] then db else runUpdateProfiles (profileFields u) i db"
  have res: "updateProfile db i u = (Some ?p', ?db')"
    by (simp add: updateProfile_result assms)
  have stored: "getProfile ?db' i = Some ?p'"
    by (simp add: getProfile_runUpdateProfiles assms)
  have others: "\<forall>j. j \<noteq> i \<longrightarrow> getProfile ?db' j = getProfile db j"
    by (simp add: getProfile_runUpdateProfiles)
  have vids: "videos ?db' = videos db"
    by (simp add: runUpdateProfiles_def)
  have empty: "name_u u = None \<and> channelName_u u = None \<and> channelLink_u u = None
                \<and> dailyPushCount_u u = None \<and> lastPushReset_u u = None
               \<longrightarrow> ?p' = p \<and> ?db' = db"
    by (simp add: profileFields_def pushField_def)
  have flds: "id_p ?p' = id_p p"
    "name ?p' = (case name_u u of None \<Rightarrow> name p | Some s \<Rightarrow> s)"
    "channelName ?p' = (case channelName_u u of None \<Rightarrow> channelName p | Some s \<Rightarrow> s)"
    "channelLink ?p' = (case channelLink_u u of None \<Rightarrow> channelLink p | Some s \<Rightarrow> s)"
    "dailyPushCount ?p' = (case dailyPushCount_u u of None \<Rightarrow> dailyPushCount p | Some n \<Rightarrow> n)"
    "lastPushReset ?p' = (case lastPushReset_u u of None \<Rightarrow> lastPushReset p | Some r \<Rightarrow> r)"
    by (simp_all add: foldl_profileFields)
  from res stored others vids empty flds show ?thesis by blast
qed

theorem updateProfile_partial_witness:
  "getProfile exampleDb 1 = Some exampleProfile
   \<and> (\<exists>p'. fst (updateProfile exampleDb 1 (noProfileFields\<lparr>channelName_u := Some ''@new''\<rparr>)) = Some p'
          \<and> channelName p' = ''@new'' \<and> name p' = ''Chan'' \<and> dailyPushCount p' = 5
          \<and> lastPushReset p' = Some ''2024-05-01 12:00:00'' \<and> id_p p' = 1)"
proof -
  have h: "getProfile exampleDb 1 = Some exampleProfile"
    by (simp add: getProfile_def exampleDb_def exampleProfile_def)
  from updateProfile_partial[OF h, of "noProfileFields\<lparr>channelName_u := Some ''@new''\<rparr>"]
  obtain p' db' where
    "updateProfile exampleDb 1 (noProfileFields\<lparr>channelName_u := Some ''@new''\<rparr>) = (Some p', db')"
    "id_p p' = id_p exampleProfile"
    "name p' = name exampleProfile"
    "channelName p' = ''@new''"
    "dailyPushCount p' = dailyPushCount exampleProfile"
    "lastPushReset p' = lastPushReset exampleProfile"
    by (auto simp: noProfileFields_def)
  then have "fst (updateProfile exampleDb 1 (noProfileFields\<lparr>channelName_u := Some ''@new''\<rparr>)) = Some p'
          \<and> channelName p' = ''@new'' \<and> name p' = ''Chan'' \<and> dailyPushCount p' = 5
          \<and> lastPushReset p' = Some ''2024-05-01 12:00:00'' \<and> id_p p' = 1"
    by (simp add: exampleProfile_def)
  with h show ?thesis by blast
qed

subsection \<open>The 24 hour push window\<close>

text \<open>The double sum of integers is exact up to \<open>2^53\<close>, and rounds beyond it.\<close>

lemma bitLength_le: "n < 2 ^ k \<Longrightarrow> bitLength n \<le> k"
proof (induction k arbitrary: n)
  case 0
  then show ?case by (simp add: bitLength.simps)
next
  case (Suc k)
  show ?case
  proof (cases "n = 0")
    case True
    then show ?thesis by (simp add: bitLength.simps)
  next
    case False
    have "n div 2 < 2 ^ k"
      using Suc.prems by simp
    then have "bitLength (n div 2) \<le> k"
      by (rule Suc.IH)
    then show ?thesis
      using False by (subst bitLength.simps) simp
  qed
qed

lemma bitLength_power: "bitLength (2 ^ k) = Suc k"
  by (induction k) (simp_all add: bitLength.simps)

lemma toDouble_exact:
  assumes "\<bar>m\<bar> \<le> 2 ^ 53"
  shows "toDouble m = m"
proof (cases "\<bar>m\<bar> = 2 ^ 53")
  case True
  then have a: "nat \<bar>m\<bar> = 2 ^ 53"
    by simp
  have q: "(2::nat) ^ 53 div 2 = 2 ^ 52" "(2::nat) ^ 53 mod 2 = 0" "\<not> odd ((2::nat) ^ 52)"
    by simp_all
  have "toDouble m = sgn m * int (2 ^ 52 * 2)"
    unfolding toDouble_def a bitLength_power Let_def using q by simp
  also have "\<dots> = sgn m * \<bar>m\<bar>"
    using True by simp
  finally show ?thesis
    by (simp add: mult_sgn_abs)
next
  case False
  then have "nat \<bar>m\<bar> < 2 ^ 53"
    using assms by (simp add: nat_less_iff)
  then have "bitLength (nat \<bar>m\<bar>) - 53 = 0"
    using bitLength_le[of "nat \<bar>m\<bar>" 53] by simp
  then have "toDouble m = sgn m * int (nat \<bar>m\<bar>)"
    by (simp add: toDouble_def Let_def)
  then show ?thesis
    by (simp add: mult_sgn_abs)
qed

lemma toDouble_succ:
  assumes "\<bar>n\<bar> < 2 ^ 53"
  shows "toDouble (n + 1) = n + 1"
  using assms by (intro toDouble_exact) linarith

lemma bitLength_eq: "2 ^ k \<le> n \<Longrightarrow> n < 2 ^ Suc k \<Longrightarrow> bitLength n = Suc k"
proof (induction k arbitrary: n)
  case 0
  then have "n = 1" by simp
  then show ?case by (simp add: bitLength.simps)
next
  case (Suc k)
  have "2 ^ k \<le> n div 2" "n div 2 < 2 ^ Suc k"
    using Suc.prems by simp_all
  then have "bitLength (n div 2) = Suc k"
    by (rule Suc.IH)
  moreover have "n \<noteq> 0"
  proof
    assume "n = 0"
    with Suc.prems(1) show False by simp
  qed
  ultimately show ?case
    by (subst bitLength.simps) simp
qed

lemma toDouble_above_2_53: "toDouble 9007199254740993 = 9007199254740992"
proof -
  have "bitLength 9007199254740993 = 54"
    using bitLength_eq[of 53 9007199254740993] by simp
  then show ?thesis
    by (simp add: toDouble_def Let_def)
qed

lemma has24HoursPassed_ms:
  "has24HoursPassed (Some t) now \<longleftrightarrow> 24 * 60 * 60 * 1000 \<le> now - t"
proof -
  have "(24 :: rat) \<le> of_int (now - t) / (1000 * 60 * 60) \<longleftrightarrow> (86400000 :: rat) \<le> of_int (now - t)"
    by (simp add: le_divide_eq)
  also have "\<dots> \<longleftrightarrow> (86400000 :: int) \<le> now - t"
    by linarith
  finally show ?thesis by (simp add: has24HoursPassed_def Let_def)
qed

text \<open>
  Claim C1, as the code has it. For a stored profile, \<open>incrementProfilePushCount\<close> sets
  \<open>dailyPushCount\<close> to 1 and \<open>lastPushReset\<close> to the formatted current time exactly when
  \<open>lastPushReset\<close> is null, is the empty string, is no valid date, or lies at least 24 hours
  (86400000 ms) before the clock reading; otherwise it sets \<open>dailyPushCount\<close> to the double
  sum of the stored count and one, which is the stored count plus one for every count below
  \<open>2^53\<close> in magnitude, and leaves \<open>lastPushReset\<close> as it is. No other field changes, and
  the returned profile is the stored one.
\<close>

theorem incrementProfilePushCount_window:
  assumes "getProfile db i = Some p"
  shows "\<exists>p' db'.
           incrementProfilePushCount newDate formatTs nowCheck nowReset db i = (Some p', db')
           \<and> getProfile db' i = Some p'
           \<and> p' = (if (case lastPushReset p of
                          None \<Rightarrow> True
                        | Some s \<Rightarrow> s = [] \<or> (case newDate s of
                                                  None \<Rightarrow> True
                                                | Some t \<Rightarrow> 24 * 60 * 60 * 1000 \<le> nowCheck - t))
                    then p\<lparr>dailyPushCount := 1, lastPushReset := Some (formatTs nowReset)\<rparr>
                    else p\<lparr>dailyPushCount := toDouble (dailyPushCount p + 1)\<rparr>)
           \<and> (\<bar>dailyPushCount p\<bar> < 2 ^ 53
                \<longrightarrow> toDouble (dailyPushCount p + 1) = dailyPushCount p + 1)"
proof -
  let ?reset = "noProfileFields\<lparr>dailyPushCount_u := Some 1,
                                 lastPushReset_u := Some (Some (formatTs nowReset))\<rparr>"
  let ?incr = "noProfileFields\<lparr>dailyPushCount_u := Some (toDouble (dailyPushCount p + 1))\<rparr>"
  let ?due = "case lastPushReset p of
                None \<Rightarrow> True
              | Some s \<Rightarrow> s = [] \<or> (case newDate s of
                                        None \<Rightarrow> True
                                      | Some t \<Rightarrow> 24 * 60 * 60 * 1000 \<le> nowCheck - t)"
  have branch: "incrementProfilePushCount newDate formatTs nowCheck nowReset db i =
                  (if ?due then updateProfile db i ?reset else updateProfile db i ?incr)"
    using assms
    by (auto simp: incrementProfilePushCount_def Let_def truthy_text_def has24HoursPassed_ms
          has24HoursPassed_def split: option.splits)
  have r: "foldl applyProfileSet p (profileFields ?reset) =
             p\<lparr>dailyPushCount := 1, lastPushReset := Some (formatTs nowReset)\<rparr>"
    by (simp add: foldl_profileFields noProfileFields_def)
  have n: "foldl applyProfileSet p (profileFields ?incr)
             = p\<lparr>dailyPushCount := toDouble (dailyPushCount p + 1)\<rparr>"
    by (simp add: foldl_profileFields noProfileFields_def)
  have nonempty: "profileFields ?reset \<noteq> []" "profileFields ?incr \<noteq> []"
    by (simp_all add: profileFields_def pushField_def noProfileFields_def)
  have exact: "\<bar>dailyPushCount p\<bar> < 2 ^ 53
                 \<longrightarrow> toDouble (dailyPushCount p + 1) = dailyPushCount p + 1"
    by (simp add: toDouble_succ)
  show ?thesis
  proof (cases ?due)
    case True
    then show ?thesis
      using assms r nonempty exact
      by (simp add: branch updateProfile_result getProfile_runUpdateProfiles del: foldl_append)
  next
    case False
    then show ?thesis
      using assms n nonempty exact
      by (simp add: branch updateProfile_result getProfile_runUpdateProfiles del: foldl_append)
  qed
qed

theorem incrementProfilePushCount_window_witness:
  "getProfile exampleDb 1 = Some exampleProfile
   \<and> \<bar>dailyPushCount exampleProfile\<bar> < 2 ^ 53
   \<and> fst (incrementProfilePushCount exampleNewDate exampleFormatTs 1714651199000 1714651199000
            exampleDb 1) = Some (exampleProfile\<lparr>dailyPushCount := 6\<rparr>)"
proof -
  have h: "getProfile exampleDb 1 = Some exampleProfile"
    by (simp add: getProfile_def exampleDb_def exampleProfile_def)
  have d: "exampleNewDate ''2024-05-01 12:00:00'' = Some 1714564800000"
    by (simp add: exampleNewDate_def exampleClock_def)
  from incrementProfilePushCount_window[OF h, of exampleNewDate exampleFormatTs 1714651199000 1714651199000]
  have "fst (incrementProfilePushCount exampleNewDate exampleFormatTs 1714651199000 1714651199000
            exampleDb 1) = Some (exampleProfile\<lparr>dailyPushCount := 6\<rparr>)"
    by (auto simp: d exampleProfile_def)
  moreover have "\<bar>dailyPushCount exampleProfile\<bar> < 2 ^ 53"
    by (simp add: exampleProfile_def)
  ultimately show ?thesis using h by simp
qed

text \<open>
  At exactly 24 hours after the stored \<open>lastPushReset\<close> (not more than 24 hours) the count is
  reset to 1 and \<open>lastPushReset\<close> is rewritten, where the claim as stated has the count go
  from 5 to 6.
\<close>

theorem incrementProfilePushCount_at_24h_counterexample:
  "getProfile exampleDb 1 = Some exampleProfile
   \<and> lastPushReset exampleProfile = Some ''2024-05-01 12:00:00''
   \<and> exampleNewDate ''2024-05-01 12:00:00'' = Some 1714564800000
   \<and> \<not> (24 * 60 * 60 * 1000 < 1714651200000 - (1714564800000 :: int))
   \<and> fst (incrementProfilePushCount exampleNewDate exampleFormatTs 1714651200000 1714651200000
            exampleDb 1)
       = Some (exampleProfile\<lparr>dailyPushCount := 1, lastPushReset := Some ''2024-05-02 12:00:00''\<rparr>)
   \<and> dailyPushCount exampleProfile + 1 \<noteq> 1"
  by (simp add: getProfile_def exampleDb_def exampleProfile_def exampleNewDate_def exampleClock_def
        exampleFormatTs_def incrementProfilePushCount_def truthy_text_def has24HoursPassed_def
        updateProfile_def profileFields_def pushField_def noProfileFields_def runUpdateProfiles_def
        Let_def)

text \<open>
  At a stored count of \<open>2^53\<close> the double sum is the count itself: the increment, 23 hours
  59 minutes and 59 seconds after the reset, leaves the count as it is.
\<close>

lemma incrementProfilePushCount_at_2_53:
  "fst (incrementProfilePushCount exampleNewDate exampleFormatTs 1714651199000 1714651199000
          (exampleDb\<lparr>profiles := [exampleProfile\<lparr>dailyPushCount := 9007199254740992\<rparr>]\<rparr>) 1)
     = Some (exampleProfile\<lparr>dailyPushCount := 9007199254740992\<rparr>)"
  by (simp add: getProfile_def exampleDb_def exampleProfile_def exampleNewDate_def exampleClock_def
        incrementProfilePushCount_def truthy_text_def has24HoursPassed_def
        updateProfile_def profileFields_def pushField_def noProfileFields_def runUpdateProfiles_def
        toDouble_above_2_53 Let_def)

subsection \<open>Marking a video uploaded and reverting\<close>

lemma foldl_applyVideoSet_id: "id_v (foldl applyVideoSet v fs) = id_v v"
proof (induction fs arbitrary: v)
  case Nil
  show ?case by simp
next
  case (Cons a fs)
  show ?case by (cases a) (simp_all add: Cons.IH)
qed

lemma getVideo_updated_rows:
  "find (\<lambda>v. id_v v = j) (map (\<lambda>v. if id_v v = i then foldl applyVideoSet v fs else v) vs) =
     (if j = i then map_option (\<lambda>v. foldl applyVideoSet v fs) (find (\<lambda>v. id_v v = i) vs)
      else find (\<lambda>v. id_v v = j) vs)"
  using find_map_same_key[of id_v "\<lambda>v. foldl applyVideoSet v fs" j i vs]
  by (simp add: foldl_applyVideoSet_id)

text \<open>An update that assigns no \<open>profileId\<close> is never refused.\<close>

lemma updateVideo_no_key:
  assumes "fs = videoFields u" "fs \<noteq> []" "\<not> list_ex (\<lambda>a. case a of SetProfileId _ \<Rightarrow> True | _ \<Rightarrow> False) fs"
  shows "updateVideo db i u =
           Inr (map_option (\<lambda>v. foldl applyVideoSet v fs) (getVideo db i),
                db\<lparr>videos := map (\<lambda>v. if id_v v = i then foldl applyVideoSet v fs else v) (videos db)\<rparr>)"
  using assms
  by (simp add: updateVideo_def runUpdateVideos_def Let_def getVideo_def getVideo_updated_rows)

lemma videoFields_mark:
  "videoFields (noVideoFields\<lparr>status_u := Some s, uploadedDate_u := Some d\<rparr>) =
     [SetStatus s, SetUploadedDate d]"
  by (simp add: videoFields_def pushField_def noVideoFields_def)

lemma videoFields_revert:
  "videoFields (noVideoFields\<lparr>status_u := Some s, uploadedDate_u := Some d, youtubeLink_u := Some y\<rparr>) =
     [SetStatus s, SetUploadedDate d, SetYoutubeLink y]"
  by (simp add: videoFields_def pushField_def noVideoFields_def)

lemma markVideoAsUploaded_stored:
  assumes "getVideo db i = Some v"
  shows "markVideoAsUploaded formatDay now db i =
           Inr (Obj (v\<lparr>status := ''completed'', uploadedDate := Some (formatDay now)\<rparr>),
                db\<lparr>videos := map (\<lambda>v. if id_v v = i
                                        then v\<lparr>status := ''completed'', uploadedDate := Some (formatDay now)\<rparr>
                                        else v) (videos db)\<rparr>)"
  using assms
  by (simp add: markVideoAsUploaded_def toJs_def
        updateVideo_no_key[OF videoFields_mark[symmetric]])

lemma revertVideoUpload_stored:
  assumes "getVideo db i = Some v"
  shows "revertVideoUpload db i =
           Inr (Obj (v\<lparr>status := ''pending'', uploadedDate := None, youtubeLink := None\<rparr>),
                db\<lparr>videos := map (\<lambda>v. if id_v v = i
                                        then v\<lparr>status := ''pending'', uploadedDate := None, youtubeLink := None\<rparr>
                                        else v) (videos db)\<rparr>)"
  using assms
  by (simp add: revertVideoUpload_def toJs_def
        updateVideo_no_key[OF videoFields_revert[symmetric]])

lemma getVideo_rows_changed:
  assumes "\<And>v. id_v (f v) = id_v v"
  shows "getVideo (db\<lparr>videos := map (\<lambda>v. if id_v v = i then f v else v) (videos db)\<rparr>) j =
           (if j = i then map_option f (getVideo db i) else getVideo db j)"
  using find_map_same_key[of id_v f j i "videos db"] assms
  by (simp add: getVideo_def)

text \<open>
  Claim C3. For a stored video, \<open>markVideoAsUploaded\<close> followed at once by
  \<open>revertVideoUpload\<close> succeeds twice and returns and stores the video with \<open>status\<close>
  \<^verbatim>\<open>'pending'\<close>, \<open>uploadedDate\<close> null and \<open>youtubeLink\<close> null and every other field as it was
  before the mark; the other videos and the profiles are as before.
\<close>

theorem mark_then_revert:
  assumes "getVideo db i = Some v"
  shows "\<exists>r1 db1 db2.
           markVideoAsUploaded formatDay now db i = Inr (r1, db1)
           \<and> revertVideoUpload db1 i =
               Inr (Obj (v\<lparr>status := ''pending'', uploadedDate := None, youtubeLink := None\<rparr>), db2)
           \<and> getVideo db2 i = Some (v\<lparr>status := ''pending'', uploadedDate := None, youtubeLink := None\<rparr>)
           \<and> (\<forall>j. j \<noteq> i \<longrightarrow> getVideo db2 j = getVideo db j)
           \<and> profiles db2 = profiles db"
proof -
  let ?mark = "\<lambda>v :: Video. v\<lparr>status := ''completed'', uploadedDate := Some (formatDay now)\<rparr>"
  let ?rev = "\<lambda>v :: Video. v\<lparr>status := ''pending'', uploadedDate := None, youtubeLink := None\<rparr>"
  let ?db1 = "db\<lparr>videos := map (\<lambda>v. if id_v v = i then ?mark v else v) (videos db)\<rparr>"
  let ?db2 = "?db1\<lparr>videos := map (\<lambda>v. if id_v v = i then ?rev v else v) (videos ?db1)\<rparr>"
  have m: "markVideoAsUploaded formatDay now db i = Inr (Obj (?mark v), ?db1)"
    by (rule markVideoAsUploaded_stored[OF assms])
  have g1: "getVideo ?db1 i = Some (?mark v)"
    using getVideo_rows_changed[where f = ?mark and db = db and i = i and j = i] assms by simp
  have r: "revertVideoUpload ?db1 i = Inr (Obj (?rev (?mark v)), ?db2)"
    by (rule revertVideoUpload_stored[OF g1])
  have same: "?rev (?mark v) = ?rev v"
    by simp
  have g2: "getVideo ?db2 i = Some (?rev v)"
    using getVideo_rows_changed[where f = ?rev and db = ?db1 and i = i and j = i] g1 by simp
  have others: "\<forall>j. j \<noteq> i \<longrightarrow> getVideo ?db2 j = getVideo db j"
    using getVideo_rows_changed[where f = ?rev and db = ?db1 and i = i] getVideo_rows_changed[where f = ?mark and db = db and i = i] by simp
  have p: "profiles ?db2 = profiles db"
    by simp
  have r': "revertVideoUpload ?db1 i = Inr (Obj (?rev v), ?db2)"
    using r by (simp only: same)
  show ?thesis
    by (intro exI conjI) (rule m, rule r', rule g2, rule others, rule p)
qed

theorem mark_then_revert_witness:
  "getVideo exampleDb 1 = Some exampleVideo
   \<and> (\<exists>r1 db1 db2.
         markVideoAsUploaded (\<lambda>t. ''2024-05-02'') 1714651200000 exampleDb 1 = Inr (r1, db1)
         \<and> revertVideoUpload db1 1 = Inr (Obj exampleVideo, db2)
         \<and> getVideo db2 1 = Some exampleVideo)"
proof -
  have h: "getVideo exampleDb 1 = Some exampleVideo"
    by (simp add: getVideo_def exampleDb_def exampleVideo_def)
  have same: "exampleVideo\<lparr>status := ''pending'', uploadedDate := None, youtubeLink := None\<rparr> = exampleVideo"
    by (simp add: exampleVideo_def)
  from mark_then_revert[OF h, of "\<lambda>t. ''2024-05-02''" 1714651200000] h show ?thesis
    unfolding same by blast
qed

subsection \<open>Looking up a video that is not stored\<close>

lemma getVideo_missing: "i \<notin> set (map id_v (videos db)) \<Longrightarrow> getVideo db i = None"
  by (auto simp: getVideo_def find_None_iff)

lemma updateVideo_missing:
  assumes "i \<notin> set (map id_v (videos db))"
  shows "updateVideo db i u = Inr (None, db)"
proof -
  have rows: "map (\<lambda>v. if id_v v = i then foldl applyVideoSet v fs else v) (videos db) = videos db" for fs
    using assms by (intro map_idI) auto
  have none: "\<not> list_ex (\<lambda>v. id_v v = i \<and> P v) (videos db)" for P
    using assms by (auto simp: list_ex_iff)
  show ?thesis
    using getVideo_missing[OF assms]
    by (simp add: updateVideo_def runUpdateVideos_def Let_def rows none)
qed

text \<open>
  Claim C10. For an id that no stored video has, \<open>getVideo\<close> of the facade resolves to
  \<^verbatim>\<open>undefined\<close>, not to \<^verbatim>\<open>null\<close>: \<^verbatim>\<open>|| null\<close> is applied to the promise, which is truthy. The
  same holds for \<open>updateVideo\<close> of the facade, which also leaves the store as it was.
\<close>

theorem offline_getVideo_missing_undefined:
  assumes "i \<notin> set (map id_v (videos db))"
  shows "offline_getVideo db i = Undefined
         \<and> offline_getVideo db i \<noteq> Null
         \<and> offline_updateVideo db i u = Inr (Undefined, db)"
  using getVideo_missing[OF assms] updateVideo_missing[OF assms]
  by (simp add: offline_getVideo_def offline_updateVideo_def js_or_def toJs_def)

theorem offline_getVideo_missing_undefined_witness:
  "7 \<notin> set (map id_v (videos exampleDb))
   \<and> offline_getVideo exampleDb 7 = Undefined
   \<and> offline_updateVideo exampleDb 7 (noVideoFields\<lparr>title_u := Some ''Renamed''\<rparr>) = Inr (Undefined, exampleDb)"
proof -
  have h: "7 \<notin> set (map id_v (videos exampleDb))"
    by (simp add: exampleDb_def exampleVideo_def)
  from offline_getVideo_missing_undefined[OF h, of "noVideoFields\<lparr>title_u := Some ''Renamed''\<rparr>"] h
  show ?thesis by simp
qed

text \<open>\<open>getProfile\<close> of the facade awaits first and does resolve to \<^verbatim>\<open>null\<close>.\<close>

lemma offline_getProfile_missing_null:
  assumes "i \<notin> set (map id_p (profiles db))"
  shows "offline_getProfile db i = Null"
proof -
  have "getProfile db i = None"
    using assms by (auto simp: getProfile_def find_None_iff)
  then show ?thesis
    by (simp add: offline_getProfile_def js_or_def toJs_def)
qed

subsection \<open>Closing the connection and coming to the foreground\<close>

lemma closeConnection_keeps_flag: "isInitialized (closeConnection pf s) = isInitialized s"
  by (simp add: closeConnection_def isInitialized_def assign_isInitialized_def Let_def)

lemma foreground_skips_initialized: "isInitialized s \<Longrightarrow> onAppForeground pf s = s"
  by (simp add: onAppForeground_def)

lemma foreground_after_close:
  assumes "isInitialized s" "closes pf"
  shows "onAppForeground pf (closeConnection pf s) = s\<lparr>connectionOpen := False\<rparr>"
  using assms
  by (simp add: onAppForeground_def closeConnection_def isInitialized_def assign_isInitialized_def Let_def)

text \<open>
  Claim C7, evaluated on the code. The service is initialized and its connection open;
  \<open>closeConnection\<close> closes the connection, but its assignment to the getter-only
  \<open>isInitialized\<close> throws and the private flag stays set. \<open>onAppForeground\<close> then finds the
  flag set and does not initialize: the connection stays closed.
\<close>

theorem foreground_after_close_not_reopened:
  "closeConnection examplePlugin openService = \<lparr>isInitialized' = True, connectionOpen = False\<rparr>
   \<and> onAppForeground examplePlugin (closeConnection examplePlugin openService)
       = \<lparr>isInitialized' = True, connectionOpen = False\<rparr>"
  by (simp add: onAppForeground_def closeConnection_def isInitialized_def assign_isInitialized_def
        examplePlugin_def openService_def Let_def)

text \<open>With the flag cleared, as the assignment was meant to do, the handler does reopen.\<close>

lemma foreground_reopens_when_flag_cleared:
  "connects pf \<Longrightarrow> creates pf \<Longrightarrow>
   onAppForeground pf \<lparr>isInitialized' = False, connectionOpen = False\<rparr>
     = \<lparr>isInitialized' = True, connectionOpen = True\<rparr>"
  by (simp add: onAppForeground_def initialize_def isInitialized_def Let_def)

subsection \<open>Deleting a profile\<close>

text \<open>The cascade, and the file area under \<open>deleteProfile\<close>, for every world.\<close>

lemma deleteProfile_cascades:
  assumes "getProfile db i = Some p"
  shows "getProfile (snd (deleteProfile db i)) i = None"
    and "list_all (\<lambda>v. profileId v \<noteq> i) (videos (snd (deleteProfile db i)))"
proof -
  have stored: "list_ex (\<lambda>p. id_p p = i) (profiles db)"
    using assms by (induction "profiles db") (auto simp: getProfile_def list_ex_iff find_Some_iff)
  show "getProfile (snd (deleteProfile db i)) i = None"
    using stored
    by (auto simp: deleteProfile_def runDeleteProfile_def Let_def getProfile_def find_None_iff)
  show "list_all (\<lambda>v. profileId v \<noteq> i) (videos (snd (deleteProfile db i)))"
    using stored by (simp add: deleteProfile_def runDeleteProfile_def Let_def list_all_iff)
qed

text \<open>
  What \<open>deleteProfile\<close> and \<open>deleteVideo\<close> return compares the object under \<^verbatim>\<open>changes\<close> with
  0, so it is \<^verbatim>\<open>false\<close> whether or not a row was deleted.
\<close>

lemma delete_result_false: "fst (deleteProfile db i) = False" "fst (deleteVideo db i) = False"
  by (simp_all add: deleteProfile_def runDeleteProfile_def deleteVideo_def runDeleteVideo_def
        object_gt_def Let_def)

lemma offline_deleteProfile_files:
  "fileArea (snd (offline_deleteProfile w i)) = fileArea w
   \<and> deleteCalls (snd (offline_deleteProfile w i)) = deleteCalls w"
  by (simp add: offline_deleteProfile_def split: prod.splits)

text \<open>
  Claim C2, evaluated on the code. Deleting the profile of the example world leaves a store
  without the profile and, by the cascade, without its video; \<open>deleteFile\<close> is never called,
  and the file and the thumbnail of the video are still in the file area.
\<close>

theorem offline_deleteProfile_leaves_files:
  "store (snd (offline_deleteProfile exampleWorld 1))
     = exampleDb\<lparr>profiles := [], videos := []\<rparr>
   \<and> filePath exampleVideo = Some ''videos/intro.mp4''
   \<and> thumbnailPath exampleVideo = Some ''thumbs/intro_thumbnail.jpg''
   \<and> fileArea (snd (offline_deleteProfile exampleWorld 1))
       = {''videos/intro.mp4'', ''thumbs/intro_thumbnail.jpg''}
   \<and> deleteCalls (snd (offline_deleteProfile exampleWorld 1)) = []"
  by (simp add: offline_deleteProfile_def deleteProfile_def runDeleteProfile_def Let_def
        exampleWorld_def exampleDb_def exampleProfile_def exampleVideo_def)

text \<open>\<open>deleteVideo\<close> of the facade, on the same world, does delete both files.\<close>

lemma offline_deleteVideo_removes_files:
  "snd (offline_deleteVideo capacitorDeleteFile exampleWorld 1)
     = \<lparr>store = exampleDb\<lparr>videos := []\<rparr>, fileArea = {},
        deleteCalls = [''videos/intro.mp4'', ''thumbs/intro_thumbnail.jpg'']\<rparr>"
  by (simp add: offline_deleteVideo_def deleteVideo_def runDeleteVideo_def getVideo_def
        deleteFileCaught_def
        deleteFile_def capacitorDeleteFile_def truthy_text_def exampleWorld_def exampleDb_def
        exampleVideo_def Let_def)

subsection \<open>Importing a malformed object\<close>

text \<open>
  Claim C5, evaluated on the code. \<open>importData\<close> checks nothing before it inserts: for an
  object with an array under \<^verbatim>\<open>profiles\<close> and no key \<^verbatim>\<open>videos\<close> it inserts the profile, then
  fails on the videos and returns \<^verbatim>\<open>false\<close>; the profile stays in the store.
\<close>

theorem importData_without_videos_key:
  "importData emptyStore \<lparr>profiles_d = Rows [exampleProfile], videos_d = Missing\<rparr>
     = (False, emptyStore\<lparr>profiles := [exampleProfile], profileSeq := 1\<rparr>)"
  by (simp add: importData_def createProfile_def newRowId_def num_or_def text_or_null_def
        truthy_text_def emptyStore_def exampleProfile_def ProfileData.defs Let_def)

lemma importData_profiles_not_iterable:
  "profiles_d d = Missing \<or> profiles_d d = NotIterable \<Longrightarrow> importData db d = (False, db)"
  by (auto simp: importData_def)

subsection \<open>Failover to the offline handler\<close>

text \<open>
  On the web platform the mode is online, the request fails and the handler answers; the
  preference \<^verbatim>\<open>'true'\<close> is written, and the next mode read still returns online.
\<close>

theorem apiRequest_failover_web_counterexample:
  "\<not> isOfflineMode webEnv
   \<and> apiRequest webEnv (\<lambda>url. FetchRejects) ''/api/profiles'' (Some (Inr ''X''))
       = (Inr ''X'', webEnv\<lparr>preference := Some ''true''\<rparr>)
   \<and> \<not> isOfflineMode (snd (apiRequest webEnv (\<lambda>url. FetchRejects) ''/api/profiles'' (Some (Inr ''X''))))"
  by (simp add: apiRequest_def isOfflineMode_def isNativeApp_def setOfflineMode_def
        onlineRequest_def getApiBaseUrl_def webEnv_def Let_def)

text \<open>
  Claim C4, as the code has it. When \<open>apiRequest\<close> runs in online mode with an offline
  handler and the online request fails (the fetch rejects, the response is not ok, or its
  body is no JSON), it returns the result of the handler and writes the preference
  \<^verbatim>\<open>'true'\<close> when the preference store works. The mode read after that returns offline
  exactly when the platform is native (android or ios) and the preference store works.
\<close>

theorem apiRequest_failover:
  assumes "\<not> isOfflineMode env"
    and "onlineRequest (fetch (getApiBaseUrl env @ endpoint)) = Inl err"
  shows "apiRequest env fetch endpoint (Some handled) = (handled, setOfflineMode env True False)
         \<and> (if preferencesWork env
             then preference (setOfflineMode env True False) = Some ''true''
             else setOfflineMode env True False = env)
         \<and> isOfflineMode (setOfflineMode env True False) = (isNativeApp env \<and> preferencesWork env)
         \<and> isNativeApp (setOfflineMode env True False) = isNativeApp env"
  using assms
  by (auto simp: apiRequest_def Let_def setOfflineMode_def isOfflineMode_def isNativeApp_def)

theorem apiRequest_failover_witness:
  "\<not> isOfflineMode androidEnv
   \<and> onlineRequest ((\<lambda>url. FetchRejects :: string Fetched) (getApiBaseUrl androidEnv @ ''/api/profiles''))
       = Inl NetworkError
   \<and> apiRequest androidEnv (\<lambda>url. FetchRejects) ''/api/profiles'' (Some (Inr ''X''))
       = (Inr ''X'', androidEnv\<lparr>preference := Some ''true''\<rparr>)
   \<and> isOfflineMode (androidEnv\<lparr>preference := Some ''true''\<rparr>)"
proof -
  have h1: "\<not> isOfflineMode androidEnv"
    by (simp add: isOfflineMode_def isNativeApp_def androidEnv_def)
  have h2: "onlineRequest ((\<lambda>url. FetchRejects :: string Fetched) (getApiBaseUrl androidEnv @ ''/api/profiles''))
       = Inl NetworkError"
    by (simp add: onlineRequest_def)
  have s: "setOfflineMode androidEnv True False = androidEnv\<lparr>preference := Some ''true''\<rparr>"
    by (simp add: setOfflineMode_def androidEnv_def)
  have n: "isNativeApp androidEnv" "preferencesWork androidEnv"
    by (simp_all add: isNativeApp_def androidEnv_def)
  from apiRequest_failover[OF h1 h2, where handled = "Inr ''X''"] h1 h2 show ?thesis
    by (simp add: s n)
qed

text \<open>Once offline, a request with a handler leaves the mode alone; with no handler the error of the request goes to the caller.\<close>

lemma apiRequest_offline_stays:
  "isOfflineMode env \<Longrightarrow> apiRequest env fetch endpoint (Some handled) = (handled, env)"
  by (simp add: apiRequest_def)

lemma apiRequest_no_handler:
  "\<not> isOfflineMode env \<Longrightarrow> onlineRequest (fetch (getApiBaseUrl env @ endpoint)) = Inl err \<Longrightarrow>
   apiRequest env fetch endpoint None = (Inl err, env)"
  by (simp add: apiRequest_def Let_def)

subsection \<open>Deleting a file that is absent\<close>

lemma deleteFile_world:
  "store (snd (deleteFile fsDelete w path)) = store w
   \<and> deleteCalls (snd (deleteFile fsDelete w path)) = deleteCalls w @ [path]"
  by (simp add: deleteFile_def Let_def split: sum.splits)

lemma deleteFileCaught_world:
  "store (deleteFileCaught fsDelete w path) = store w
   \<and> deleteCalls (deleteFileCaught fsDelete w path)
       = deleteCalls w @ [s. Some s \<leftarrow> [path], s \<noteq> []]"
  by (cases path) (simp_all add: deleteFileCaught_def truthy_text_def deleteFile_world)

lemma getVideo_deleteVideo: "getVideo (snd (deleteVideo db i)) i = None"
  by (auto simp: getVideo_def deleteVideo_def runDeleteVideo_def find_None_iff)

lemma deleteFile_rethrows:
  "fsDelete path (fileArea w) = Inl e \<Longrightarrow>
   deleteFile fsDelete w path = (Some e, w\<lparr>deleteCalls := deleteCalls w @ [path]\<rparr>)"
  by (simp add: deleteFile_def Let_def)

text \<open>
  Deleting a path that is not in the file area fails with the error of the plugin.
\<close>

theorem deleteFile_absent_counterexample:
  "''videos/gone.mp4'' \<notin> fileArea exampleWorld
   \<and> deleteFile capacitorDeleteFile exampleWorld ''videos/gone.mp4''
       = (Some FileDoesNotExist, exampleWorld\<lparr>deleteCalls := [''videos/gone.mp4'']\<rparr>)"
  by (simp add: deleteFile_def capacitorDeleteFile_def exampleWorld_def Let_def)

text \<open>
  Claim C9, as the code has it. \<open>deleteFile\<close> of the file area throws the error of the plugin
  again, so on a path that is absent it fails and changes nothing but the record of the
  call. \<open>deleteVideo\<close> of the facade catches that error: for a stored video it attempts the
  deletion of the file and of the thumbnail, and whatever the plugin answers it goes on to
  delete the record, which is gone afterwards.
\<close>

theorem deleteFile_rethrows_deleteVideo_catches:
  assumes "getVideo (store w) i = Some v"
  shows "(\<forall>path. path \<notin> fileArea w \<longrightarrow>
            deleteFile capacitorDeleteFile w path
              = (Some FileDoesNotExist, w\<lparr>deleteCalls := deleteCalls w @ [path]\<rparr>))
         \<and> getVideo (store (snd (offline_deleteVideo fsDelete w i))) i = None
         \<and> profiles (store (snd (offline_deleteVideo fsDelete w i))) = profiles (store w)
         \<and> deleteCalls (snd (offline_deleteVideo fsDelete w i))
             = deleteCalls w @ [s. Some s \<leftarrow> [filePath v, thumbnailPath v], s \<noteq> []]"
proof -
  let ?w1 = "deleteFileCaught fsDelete w (filePath v)"
  let ?w2 = "deleteFileCaught fsDelete ?w1 (thumbnailPath v)"
  have absent: "\<forall>path. path \<notin> fileArea w \<longrightarrow>
            deleteFile capacitorDeleteFile w path
              = (Some FileDoesNotExist, w\<lparr>deleteCalls := deleteCalls w @ [path]\<rparr>)"
    by (simp add: deleteFile_rethrows capacitorDeleteFile_def)
  have st: "store ?w2 = store w"
    by (simp add: deleteFileCaught_world)
  have calls: "deleteCalls ?w2 = deleteCalls w @ [s. Some s \<leftarrow> [filePath v, thumbnailPath v], s \<noteq> []]"
    by (simp add: deleteFileCaught_world)
  have run: "offline_deleteVideo fsDelete w i =
               (fst (deleteVideo (store w) i), ?w2\<lparr>store := snd (deleteVideo (store w) i)\<rparr>)"
    using assms by (simp add: offline_deleteVideo_def Let_def st split: prod.splits)
  have kept: "profiles (snd (deleteVideo (store w) i)) = profiles (store w)"
    by (simp add: deleteVideo_def runDeleteVideo_def)
  show ?thesis
    using absent kept calls getVideo_deleteVideo[of "store w" i]
    by (simp add: run)
qed

theorem deleteFile_rethrows_deleteVideo_catches_witness:
  "getVideo (store (exampleWorld\<lparr>fileArea := {}\<rparr>)) 1 = Some exampleVideo
   \<and> getVideo (store (snd (offline_deleteVideo capacitorDeleteFile (exampleWorld\<lparr>fileArea := {}\<rparr>) 1))) 1 = None
   \<and> deleteCalls (snd (offline_deleteVideo capacitorDeleteFile (exampleWorld\<lparr>fileArea := {}\<rparr>) 1))
       = [''videos/intro.mp4'', ''thumbs/intro_thumbnail.jpg'']"
proof -
  have h: "getVideo (store (exampleWorld\<lparr>fileArea := {}\<rparr>)) 1 = Some exampleVideo"
    by (simp add: getVideo_def exampleWorld_def exampleDb_def exampleVideo_def)
  have c: "deleteCalls (exampleWorld\<lparr>fileArea := {}\<rparr>) = []"
    by (simp add: exampleWorld_def)
  from deleteFile_rethrows_deleteVideo_catches[OF h, of capacitorDeleteFile] h show ?thesis
    by (simp add: c exampleVideo_def)
qed

subsection \<open>Export followed by import\<close>

lemma text_or_null_keeps: "t \<noteq> Some [] \<Longrightarrow> text_or_null t = t"
  by (cases t) (simp_all add: text_or_null_def truthy_text_def)

lemma num_or_null_keeps: "n \<noteq> Some 0 \<Longrightarrow> num_or_null n = n"
  by (cases n) (simp_all add: num_or_null_def truthy_num_def)

lemma num_or_zero: "num_or n 0 = n"
  by (simp add: num_or_def)

lemma string_or_keeps: "s \<noteq> [] \<Longrightarrow> string_or s d = s"
  by (simp add: string_or_def)

lemma createProfile_row:
  assumes "noFalsyProfile p"
  shows "map ProfileData.truncate (profiles (snd (createProfile db (ProfileData.truncate p))))
           = map ProfileData.truncate (profiles db) @ [ProfileData.truncate p]"
  using assms
  by (cases p) (simp add: createProfile_def Let_def noFalsyProfile_def text_or_null_keeps num_or_zero
        ProfileData.defs Profile.defs)

lemma createVideo_row:
  assumes "noFalsyVideo v" "createVideo db (VideoData.truncate v) = Inr (c, db')"
  shows "map VideoData.truncate (videos db') = map VideoData.truncate (videos db) @ [VideoData.truncate v]
         \<and> profiles db' = profiles db"
  using assms
  by (cases v) (auto simp: createVideo_def Let_def noFalsyVideo_def text_or_null_keeps num_or_null_keeps
        string_or_keeps VideoData.defs Video.defs split: if_splits)

lemma foldr_max_bounded: "\<forall>i\<in>set ids. i \<le> seq \<Longrightarrow> foldr max ids (seq :: int) = seq"
  by (induction ids) (auto simp: max_def)

lemma createProfile_ids:
  assumes "\<forall>q\<in>set (profiles db). id_p q \<le> profileSeq db"
  shows "map id_p (profiles (snd (createProfile db d))) = map id_p (profiles db) @ [profileSeq db + 1]
         \<and> profileSeq (snd (createProfile db d)) = profileSeq db + 1
         \<and> videos (snd (createProfile db d)) = videos db
         \<and> videoSeq (snd (createProfile db d)) = videoSeq db"
proof -
  have "newRowId (profileSeq db) (map id_p (profiles db)) = profileSeq db + 1"
    using assms by (simp add: newRowId_def foldr_max_bounded)
  then show ?thesis
    by (simp add: createProfile_def Let_def)
qed

lemma importProfiles_rows:
  assumes "\<forall>p\<in>set ps. noFalsyProfile p"
  shows "map ProfileData.truncate (profiles (importProfiles db ps))
           = map ProfileData.truncate (profiles db) @ map ProfileData.truncate ps"
  using assms
proof (induction ps arbitrary: db)
  case Nil
  show ?case by simp
next
  case (Cons p ps)
  have "map ProfileData.truncate (profiles (importProfiles (snd (createProfile db (ProfileData.truncate p))) ps))
          = map ProfileData.truncate (profiles (snd (createProfile db (ProfileData.truncate p))))
            @ map ProfileData.truncate ps"
    using Cons.prems by (intro Cons.IH) simp
  also have "map ProfileData.truncate (profiles (snd (createProfile db (ProfileData.truncate p))))
               = map ProfileData.truncate (profiles db) @ [ProfileData.truncate p]"
    using Cons.prems by (intro createProfile_row) simp
  finally show ?case by simp
qed

lemma importProfiles_ids:
  assumes "\<forall>q\<in>set (profiles db). id_p q \<le> profileSeq db"
  shows "map id_p (profiles (importProfiles db ps))
           = map id_p (profiles db) @ map (\<lambda>k. profileSeq db + 1 + int k) [0..<length ps]
         \<and> videos (importProfiles db ps) = videos db"
  using assms
proof (induction ps arbitrary: db)
  case Nil
  show ?case by simp
next
  case (Cons p ps)
  let ?db1 = "snd (createProfile db (ProfileData.truncate p))"
  note step = createProfile_ids[OF Cons.prems, of "ProfileData.truncate p"]
  have inv: "\<forall>q\<in>set (profiles ?db1). id_p q \<le> profileSeq ?db1"
  proof
    fix q assume "q \<in> set (profiles ?db1)"
    then have "id_p q \<in> set (map id_p (profiles ?db1))" by simp
    then have "id_p q \<in> set (map id_p (profiles db)) \<or> id_p q = profileSeq db + 1"
      using step by auto
    then show "id_p q \<le> profileSeq ?db1"
      using Cons.prems step by auto
  qed
  have shift: "map (\<lambda>k. profileSeq db + 1 + int k) [0..<Suc (length ps)]
                 = (profileSeq db + 1) # map (\<lambda>k. profileSeq ?db1 + 1 + int k) [0..<length ps]"
    using step by (simp add: upt_conv_Cons map_Suc_upt[symmetric] del: upt_Suc)
  from Cons.IH[OF inv] step shift show ?case by simp
qed

lemma importVideos_rows:
  assumes "\<forall>v\<in>set vs. noFalsyVideo v"
    and "\<forall>v\<in>set vs. profileId v \<in> set (map id_p (profiles db))"
  shows "\<exists>db'. importVideos db vs = (None, db')
           \<and> profiles db' = profiles db
           \<and> map VideoData.truncate (videos db')
               = map VideoData.truncate (videos db) @ map VideoData.truncate vs"
  using assms
proof (induction vs arbitrary: db)
  case Nil
  show ?case by simp
next
  case (Cons v vs)
  have key: "profileId (VideoData.truncate v) \<in> set (map id_p (profiles db))"
    using Cons.prems(2) by (cases v) (simp add: VideoData.defs)
  then obtain c db1 where made: "createVideo db (VideoData.truncate v) = Inr (c, db1)"
    by (auto simp: createVideo_def Let_def)
  have clean: "noFalsyVideo v"
    using Cons.prems(1) by simp
  note row = createVideo_row[OF clean made]
  have "\<exists>db'. importVideos db1 vs = (None, db')
           \<and> profiles db' = profiles db1
           \<and> map VideoData.truncate (videos db')
               = map VideoData.truncate (videos db1) @ map VideoData.truncate vs"
    using Cons.prems row by (intro Cons.IH) simp_all
  then show ?case
    using made row by auto
qed

text \<open>
  Claim C6, as the code has it. Take any store whose optional fields are all null or
  truthy (no empty string, no size 0, no empty status) and any empty target store, such that
  every video's \<open>profileId\<close> is one of the keys the target gives the imported profiles
  (the next \<open>n\<close> keys after its counter, for \<open>n\<close> profiles). Then \<open>importData\<close> of
  \<open>exportData\<close> returns \<^verbatim>\<open>true\<close>, and the stored profiles and videos are the exported ones as
  multisets of records without their ids.
\<close>

theorem export_then_import:
  assumes "profiles e = []" and "videos e = []"
    and "\<forall>p\<in>set (profiles db). noFalsyProfile p"
    and "\<forall>v\<in>set (videos db). noFalsyVideo v"
    and "\<forall>v\<in>set (videos db). profileSeq e < profileId v
                                \<and> profileId v \<le> profileSeq e + int (length (profiles db))"
  shows "\<exists>db'. importData e (exportData db) = (True, db')
           \<and> mset (map ProfileData.truncate (profiles db'))
               = mset (map ProfileData.truncate (profiles db))
           \<and> mset (map VideoData.truncate (videos db'))
               = mset (map VideoData.truncate (videos db))"
proof -
  let ?ps = "getProfiles db"
  let ?vs = "getVideos db"
  let ?db1 = "importProfiles e ?ps"
  have ps_set: "set ?ps = set (profiles db)" and ps_len: "length ?ps = length (profiles db)"
    by (simp_all add: getProfiles_def)
  have vs_set: "set ?vs = set (videos db)"
    by (simp add: getVideos_def)
  have rows1: "map ProfileData.truncate (profiles ?db1) = map ProfileData.truncate ?ps"
    using importProfiles_rows[of ?ps e] assms(1,3) ps_set by simp
  have ids1: "map id_p (profiles ?db1) = map (\<lambda>k. profileSeq e + 1 + int k) [0..<length (profiles db)]"
    and vids1: "videos ?db1 = []"
    using importProfiles_ids[of e ?ps] assms(1,2) ps_len by simp_all
  have fk: "\<forall>v\<in>set ?vs. profileId v \<in> set (map id_p (profiles ?db1))"
  proof
    fix v assume "v \<in> set ?vs"
    then have b: "profileSeq e < profileId v" "profileId v \<le> profileSeq e + int (length (profiles db))"
      using assms(5) vs_set by auto
    define k where "k = nat (profileId v - profileSeq e - 1)"
    have "k < length (profiles db)" "profileId v = profileSeq e + 1 + int k"
      using b by (simp_all add: k_def)
    then show "profileId v \<in> set (map id_p (profiles ?db1))"
      unfolding ids1 by auto
  qed
  have clean: "\<forall>v\<in>set ?vs. noFalsyVideo v"
    using assms(4) vs_set by simp
  from importVideos_rows[OF clean fk] obtain db2 where
    run: "importVideos ?db1 ?vs = (None, db2)"
    and p2: "profiles db2 = profiles ?db1"
    and v2: "map VideoData.truncate (videos db2) = map VideoData.truncate ?vs"
    using vids1 by auto
  have res: "importData e (exportData db) = (True, db2)"
    by (simp add: importData_def exportData_def Let_def run)
  have mp: "mset (map ProfileData.truncate (profiles db2)) = mset (map ProfileData.truncate (profiles db))"
    unfolding p2 rows1 by (simp add: getProfiles_def)
  have mv: "mset (map VideoData.truncate (videos db2)) = mset (map VideoData.truncate (videos db))"
    unfolding v2 by (simp add: getVideos_def)
  from res mp mv show ?thesis by blast
qed


theorem export_then_import_witness:
  "profiles emptyStore = [] \<and> videos emptyStore = []
   \<and> list_all noFalsyProfile (profiles exampleDb)
   \<and> list_all noFalsyVideo (videos exampleDb)
   \<and> list_all (\<lambda>v. profileSeq emptyStore < profileId v
                     \<and> profileId v \<le> profileSeq emptyStore + int (length (profiles exampleDb)))
         (videos exampleDb)
   \<and> (\<exists>db'. importData emptyStore (exportData exampleDb) = (True, db')
           \<and> mset (map ProfileData.truncate (profiles db'))
               = mset (map ProfileData.truncate (profiles exampleDb))
           \<and> mset (map VideoData.truncate (videos db'))
               = mset (map VideoData.truncate (videos exampleDb)))"
proof -
  have h1: "profiles emptyStore = []" and h2: "videos emptyStore = []"
    by (simp_all add: emptyStore_def)
  have h3: "\<forall>p\<in>set (profiles exampleDb). noFalsyProfile p"
    by (simp add: exampleDb_def exampleProfile_def noFalsyProfile_def)
  have h4: "\<forall>v\<in>set (videos exampleDb). noFalsyVideo v"
    by (simp add: exampleDb_def exampleVideo_def noFalsyVideo_def)
  have h5: "\<forall>v\<in>set (videos exampleDb). profileSeq emptyStore < profileId v
              \<and> profileId v \<le> profileSeq emptyStore + int (length (profiles exampleDb))"
    by (simp add: exampleDb_def exampleVideo_def emptyStore_def)
  from export_then_import[OF h1 h2 h3 h4 h5] h1 h2 h3 h4 h5 show ?thesis
    by (simp only: list_all_iff simp_thms)
qed

text \<open>
  A video with a file size of 0 is exported with it and stored with \<^verbatim>\<open>null\<close>: no stored
  record agrees with the exported one on every field other than the id.
\<close>

theorem export_then_import_zero_size_counterexample:
  "fileSize staleVideo = Some 0
   \<and> importData emptyStore (exportData staleDb)
       = (True, staleDb\<lparr>videos := [staleVideo\<lparr>fileSize := None\<rparr>]\<rparr>)
   \<and> \<not> list_ex (\<lambda>s. VideoData.truncate s = VideoData.truncate staleVideo)
          (videos (snd (importData emptyStore (exportData staleDb))))"
  by (simp add: importData_def exportData_def getProfiles_def getVideos_def createProfile_def
        createVideo_def newRowId_def num_or_def text_or_null_def num_or_null_def string_or_def
        truthy_text_def truthy_num_def emptyStore_def staleDb_def staleVideo_def exampleDb_def
        exampleProfile_def exampleVideo_def ProfileData.defs VideoData.defs Let_def)

text \<open>
  The import keeps every video's \<open>profileId\<close> while the profiles get new keys. A store whose
  only profile has key 2 is imported with the profile under key 1; the insert of its video
  is refused, and the import returns \<^verbatim>\<open>false\<close> with the profile stored.
\<close>

lemma import_after_renumbering_loses_videos:
  "importData emptyStore (exportData renumberedDb)
     = (False, emptyStore\<lparr>profiles := [exampleProfile], profileSeq := 1\<rparr>)"
  by (simp add: importData_def exportData_def getProfiles_def getVideos_def createProfile_def
        createVideo_def newRowId_def num_or_def text_or_null_def
        truthy_text_def emptyStore_def renumberedDb_def exampleDb_def
        exampleProfile_def exampleVideo_def ProfileData.defs VideoData.defs Let_def)

end
